theory Spec2Isabelle
  imports Complex_Main "HOL-Library.AList"
begin

section \<open>The embedding\<close>

text \<open>
  The banking classes of \<^verbatim>\<open>src/app.js\<close> (\<^verbatim>\<open>Transaction\<close>, \<^verbatim>\<open>Account\<close>,
  \<^verbatim>\<open>SavingsAccount\<close>, \<^verbatim>\<open>CheckingAccount\<close>, \<^verbatim>\<open>Customer\<close>, \<^verbatim>\<open>Bank\<close>) as a shallow embedding.

  Conventions of the embedding:
  \<^item> A JavaScript number is an IEEE-754 double (\<open>number\<close>, section Numbers): every
    sum, difference, product and quotient is rounded as the machine rounds it, and
    \<^verbatim>\<open>NaN\<close> and the infinities are values. Counters, account numbers and object
    addresses are natural numbers.
  \<^item> Every \<^verbatim>\<open>throw new Error(...)\<close> is a value of \<open>error\<close>; a method returns its
    result or error together with the objects as they are when it returns, so a state
    change made before a throw stays visible.
  \<^item> \<^verbatim>\<open>Transaction\<close> objects live in a store (\<open>txHeap\<close>, address = index), because
    the getter \<^verbatim>\<open>transactions\<close> hands references to them to callers; an account holds the
    addresses of its records. \<^verbatim>\<open>Bank\<close> objects live in a store as well, because
    \<^verbatim>\<open>Bank.instance\<close> is compared by identity.
  \<^item> An \<^verbatim>\<open>Account\<close> is held by value in the Map of its customer, and a
    \<^verbatim>\<open>Customer\<close> in the Map of the bank: a method that mutates the object returns the
    changed value, and the owner stores it back under the same key.
  \<^item> \<^verbatim>\<open>timestamp = new Date()\<close> is not modelled; a description string built from a
    template literal is the template and its argument (\<open>descr\<close>); \<^verbatim>\<open>console.log\<close> has no
    effect in the model.
\<close>

section \<open>Numbers\<close>

text \<open>
  The arithmetic of the language is not code of the repository; it is modelled here as
  IEEE 754 prescribes it for binary64 with rounding to nearest, ties to even, which is
  what \<^verbatim>\<open>+\<close>, \<^verbatim>\<open>-\<close>, \<^verbatim>\<open>*\<close> and \<^verbatim>\<open>/\<close> do on JavaScript numbers.

  A finite double is the rational it denotes. \<open>round_double q\<close> is the double nearest to
  \<open>q\<close>: with \<open>2 ^ k \<le> \<bar>q\<bar> < 2 ^ (k + 1)\<close> the doubles around \<open>q\<close> are the multiples of
  \<open>2 ^ (k - 52)\<close> (53 significant bits), and of \<open>2 ^ - 1074\<close> below the normal range;
  \<open>q\<close> goes to the nearest multiple, and to the one with the even multiplier when it is
  half way. A rounded magnitude of \<open>2 ^ 1024\<close> or more is an infinity.

  The two zeros are one value: the modelled code never divides by a computed value, so
  the sign of a zero is never observed. Equality of the model is sameness of value
  (\<^verbatim>\<open>NaN\<close> is \<^verbatim>\<open>NaN\<close>); the comparisons of the program are \<open>js_le\<close>, \<open>js_lt\<close>, \<open>js_ge\<close>,
  which are false on \<^verbatim>\<open>NaN\<close>.
\<close>

function bit_length :: "int \<Rightarrow> nat" where
  "bit_length n = (if n \<le> 0 then 0 else Suc (bit_length (n div 2)))"
  by pat_completeness auto
termination
  by (relation "measure nat") auto

declare bit_length.simps [simp del]

definition pow2 :: "int \<Rightarrow> rat" where
  "pow2 k = (if 0 \<le> k then 2 ^ nat k else 1 / 2 ^ nat (- k))"

text \<open>For \<open>0 < q\<close>, the \<open>k\<close> with \<open>2 ^ k \<le> q < 2 ^ (k + 1)\<close>.\<close>

definition floor_log2 :: "rat \<Rightarrow> int" where
  "floor_log2 q =
     (if 1 \<le> q then int (bit_length \<lfloor>q\<rfloor>) - 1
      else - int (bit_length (\<lceil>1 / q\<rceil> - 1)))"

definition round_half_even :: "rat \<Rightarrow> int" where
  "round_half_even x =
     (let f = \<lfloor>x\<rfloor>; d = x - of_int f
      in if d < 1 / 2 then f else if 1 / 2 < d then f + 1 else if even f then f else f + 1)"

definition round_double :: "rat \<Rightarrow> rat" where
  "round_double q =
     (if q = 0 then 0
      else let e = max (floor_log2 \<bar>q\<bar> - 52) (- 1074)
           in of_int (round_half_even (q / pow2 e)) * pow2 e)"

datatype number = Num rat | PosInfinity | NegInfinity | NaN

text \<open>
  The double that an exact result \<open>q\<close> becomes; also the value of a decimal literal such
  as \<^verbatim>\<open>0.02\<close>, which is not a double itself.
\<close>

definition double_of :: "rat \<Rightarrow> number" where
  "double_of q =
     (let r = round_double q
      in if r = 0 then Num 0
         else if 1024 \<le> floor_log2 \<bar>r\<bar> then (if 0 < r then PosInfinity else NegInfinity)
         else Num r)"

text \<open>
  The values of the program are the doubles among the numbers: the infinities,
  \<^verbatim>\<open>NaN\<close>, and \<open>Num q\<close> for the rationals \<open>q\<close> that rounding leaves as they are. A decimal
  literal denotes the double nearest to it, so \<^verbatim>\<open>0.1\<close> is \<open>double_of (1 / 10)\<close> and not
  \<open>Num (1 / 10)\<close>, which no variable of the program can hold. The theorems are
  stated for all numbers, the doubles among them.
\<close>

definition is_double :: "number \<Rightarrow> bool" where
  "is_double x = (case x of Num q \<Rightarrow> double_of q = Num q | _ \<Rightarrow> True)"

fun js_neg :: "number \<Rightarrow> number" where
  "js_neg (Num a) = Num (- a)"
| "js_neg PosInfinity = NegInfinity"
| "js_neg NegInfinity = PosInfinity"
| "js_neg NaN = NaN"

fun js_add :: "number \<Rightarrow> number \<Rightarrow> number" where
  "js_add (Num a) (Num b) = double_of (a + b)"
| "js_add NaN y = NaN"
| "js_add x NaN = NaN"
| "js_add PosInfinity NegInfinity = NaN"
| "js_add NegInfinity PosInfinity = NaN"
| "js_add PosInfinity y = PosInfinity"
| "js_add NegInfinity y = NegInfinity"
| "js_add x PosInfinity = PosInfinity"
| "js_add x NegInfinity = NegInfinity"

fun js_sub :: "number \<Rightarrow> number \<Rightarrow> number" where
  "js_sub (Num a) (Num b) = double_of (a - b)"
| "js_sub NaN y = NaN"
| "js_sub x NaN = NaN"
| "js_sub PosInfinity PosInfinity = NaN"
| "js_sub NegInfinity NegInfinity = NaN"
| "js_sub PosInfinity y = PosInfinity"
| "js_sub NegInfinity y = NegInfinity"
| "js_sub x PosInfinity = NegInfinity"
| "js_sub x NegInfinity = PosInfinity"

text \<open>The sign of a number: 1, 0 or -1; only used where \<^verbatim>\<open>NaN\<close> is excluded.\<close>

fun js_sign :: "number \<Rightarrow> int" where
  "js_sign (Num a) = (if 0 < a then 1 else if a < 0 then - 1 else 0)"
| "js_sign PosInfinity = 1"
| "js_sign NegInfinity = - 1"
| "js_sign NaN = 0"

fun js_mul :: "number \<Rightarrow> number \<Rightarrow> number" where
  "js_mul (Num a) (Num b) = double_of (a * b)"
| "js_mul NaN y = NaN"
| "js_mul x NaN = NaN"
| "js_mul x y =
     (let s = js_sign x * js_sign y
      in if s = 0 then NaN else if 0 < s then PosInfinity else NegInfinity)"

text \<open>
  Division. The quotient by a zero takes the zero as positive; the modelled code divides
  by the literal 12 only.
\<close>

fun js_div :: "number \<Rightarrow> number \<Rightarrow> number" where
  "js_div (Num a) (Num b) =
     (if b = 0 then (if a = 0 then NaN else if 0 < a then PosInfinity else NegInfinity)
      else double_of (a / b))"
| "js_div NaN y = NaN"
| "js_div x NaN = NaN"
| "js_div (Num a) y = Num 0"
| "js_div x (Num b) =
     (if 0 \<le> js_sign x * (if b < 0 then - 1 else 1) then PosInfinity else NegInfinity)"
| "js_div x y = NaN"

fun js_le :: "number \<Rightarrow> number \<Rightarrow> bool" where
  "js_le (Num a) (Num b) = (a \<le> b)"
| "js_le NaN y = False"
| "js_le x NaN = False"
| "js_le NegInfinity y = True"
| "js_le x PosInfinity = True"
| "js_le x y = False"

fun js_lt :: "number \<Rightarrow> number \<Rightarrow> bool" where
  "js_lt (Num a) (Num b) = (a < b)"
| "js_lt NaN y = False"
| "js_lt x NaN = False"
| "js_lt NegInfinity NegInfinity = False"
| "js_lt NegInfinity y = True"
| "js_lt PosInfinity y = False"
| "js_lt x PosInfinity = True"
| "js_lt x y = False"

definition js_ge :: "number \<Rightarrow> number \<Rightarrow> bool" where
  "js_ge x y = js_le y x"

section \<open>Data model\<close>

datatype error =
    InvalidAmount               \<comment> \<open>"Deposit amount must be positive" / "Withdrawal amount must be positive"\<close>
  | WithdrawalDenied            \<comment> \<open>"Cannot withdraw $... Insufficient funds or limit exceeded"\<close>
  | UnknownAccountType          \<comment> \<open>"Unknown account type: ..."\<close>
  | AbstractInstantiationError  \<comment> \<open>"Cannot instantiate abstract Account class"\<close>
  | AccountNotFound             \<comment> \<open>"One or both accounts not found"\<close>
  | SameAccountTransfer         \<comment> \<open>"Cannot transfer to the same account"\<close>
  | NotAFunction                \<comment> \<open>the TypeError of calling a method the object's class does not have\<close>

datatype tx_type =
  TDeposit | TWithdrawal | TTransferIn | TTransferOut | TInterest | TFee | TAccountOpening

datatype tx_status = Pending | Completed | Failed

datatype descr =
    Account_opened              \<comment> \<open>'Account opened'\<close>
  | Deposit_to nat              \<comment> \<open>`Deposit to account ${accountNumber}`\<close>
  | Withdrawal_from nat         \<comment> \<open>`Withdrawal from account ${accountNumber}`\<close>
  | Interest_applied number        \<comment> \<open>`Interest applied for ${months} month(s)`\<close>
  | Monthly_fee                 \<comment> \<open>'Monthly maintenance fee'\<close>
  | Transferred_to nat          \<comment> \<open>`Transferred to account ${toAccountNumber}`\<close>
  | Received_from nat           \<comment> \<open>`Received from account ${fromAccountNumber}`\<close>

record transaction =
  tx_id :: nat
  tx_type :: tx_type
  amount :: number
  description :: descr
  status :: tx_status

text \<open>The fields a subclass constructor adds after \<^verbatim>\<open>super(...)\<close>.\<close>

datatype account_class =
    SavingsAccount number number      \<comment> \<open>\<^verbatim>\<open>_interestRate\<close>, \<^verbatim>\<open>_minBalance\<close>\<close>
  | CheckingAccount number number     \<comment> \<open>\<^verbatim>\<open>_overdraftLimit\<close>, \<^verbatim>\<open>_monthlyFee\<close>\<close>

record account =
  accountNumber :: nat
  ownerId :: nat                \<comment> \<open>\<^verbatim>\<open>_customerId\<close>\<close>
  balance :: number
  accountType :: string
  transactions :: "nat list"    \<comment> \<open>addresses of the Transaction objects, oldest first\<close>
  accountActive :: bool         \<comment> \<open>\<^verbatim>\<open>_isActive\<close>\<close>
  dailyWithdrawalLimit :: number
  todayWithdrawn :: number
  cls :: account_class

record customer =
  customerId :: nat
  firstName :: string
  lastName :: string
  email :: string
  password :: string
  accounts :: "(nat \<times> account) list"   \<comment> \<open>the Map accountNumber -> Account, in insertion order\<close>
  isActive :: bool

record bank =
  bankName :: string
  location :: string
  customers :: "(nat \<times> customer) list"
  totalDeposits :: number
  totalLoans :: number
  bankBalance :: number
  transactionFee :: number

text \<open>The static class fields and the object stores.\<close>

record world =
  idCounter :: nat                  \<comment> \<open>\<^verbatim>\<open>Transaction.idCounter\<close>, initially 1\<close>
  accountCounter :: nat             \<comment> \<open>\<^verbatim>\<open>Account.accountCounter\<close>, initially 1000\<close>
  txHeap :: "transaction list"      \<comment> \<open>the Transaction objects, by address\<close>
  bankHeap :: "bank list"           \<comment> \<open>the Bank objects, by address\<close>
  bankInstance :: "nat option"      \<comment> \<open>\<^verbatim>\<open>Bank.instance\<close>, initially undefined\<close>

definition initial_world :: world where
  "initial_world =
     \<lparr>idCounter = 1, accountCounter = 1000, txHeap = [], bankHeap = [], bankInstance = None\<rparr>"

section \<open>Transaction\<close>

text \<open>\<^verbatim>\<open>new Transaction(type, amount, description)\<close>: the address of the new object.\<close>

definition Transaction_new :: "tx_type \<Rightarrow> number \<Rightarrow> descr \<Rightarrow> world \<Rightarrow> nat \<times> world" where
  "Transaction_new ty amt d w =
     (length (txHeap w),
      w\<lparr>idCounter := idCounter w + 1,
        txHeap := txHeap w @
          [\<lparr>tx_id = idCounter w, tx_type = ty, amount = amt, description = d,
            status = Pending\<rparr>]\<rparr>)"

text \<open>
  \<^verbatim>\<open>complete()\<close> and \<^verbatim>\<open>fail()\<close> on the Transaction object at address \<open>r\<close>. A method
  is only ever called on an object that exists, that is on an allocated address.
\<close>

definition complete :: "nat \<Rightarrow> world \<Rightarrow> world" where
  "complete r w = w\<lparr>txHeap := (txHeap w)[r := (txHeap w ! r)\<lparr>status := Completed\<rparr>]\<rparr>"

definition fail :: "nat \<Rightarrow> world \<Rightarrow> world" where
  "fail r w = w\<lparr>txHeap := (txHeap w)[r := (txHeap w ! r)\<lparr>status := Failed\<rparr>]\<rparr>"

section \<open>Account, SavingsAccount, CheckingAccount\<close>

definition addTransaction ::
  "tx_type \<Rightarrow> number \<Rightarrow> descr \<Rightarrow> account \<Rightarrow> world \<Rightarrow> nat \<times> account \<times> world" where
  "addTransaction ty amt d a w =
     (let (r, w1) = Transaction_new ty amt d w;
          w2 = complete r w1
      in (r, a\<lparr>transactions := transactions a @ [r]\<rparr>, w2))"

text \<open>
  \<^verbatim>\<open>new Account(...)\<close> and, through \<^verbatim>\<open>super(...)\<close>, the subclass constructors. The first
  argument is \<open>None\<close> for a direct \<^verbatim>\<open>new Account\<close> (where \<^verbatim>\<open>this.constructor === Account\<close>)
  and otherwise the fields the subclass constructor sets once \<^verbatim>\<open>super\<close> has returned.
\<close>

definition Account_new ::
  "account_class option \<Rightarrow> nat \<Rightarrow> number \<Rightarrow> string \<Rightarrow> world \<Rightarrow> (error + account) \<times> world" where
  "Account_new sub cid initialBalance aty w =
     (case sub of
        None \<Rightarrow> (Inl AbstractInstantiationError, w)
      | Some s \<Rightarrow>
          let a0 = \<lparr>accountNumber = accountCounter w, ownerId = cid, balance = initialBalance,
                    accountType = aty, transactions = [], accountActive = True,
                    dailyWithdrawalLimit = Num 1000, todayWithdrawn = Num 0, cls = s\<rparr>;
              w0 = w\<lparr>accountCounter := accountCounter w + 1\<rparr>;
              (r, a1, w1) = addTransaction TAccountOpening initialBalance Account_opened a0 w0
          in (Inr a1, w1))"

definition SavingsAccount_new :: "nat \<Rightarrow> number \<Rightarrow> world \<Rightarrow> (error + account) \<times> world" where
  "SavingsAccount_new cid initialBalance w =
     Account_new (Some (SavingsAccount (double_of (2 / 100)) (Num 100))) cid initialBalance ''savings'' w"

definition CheckingAccount_new :: "nat \<Rightarrow> number \<Rightarrow> world \<Rightarrow> (error + account) \<times> world" where
  "CheckingAccount_new cid initialBalance w =
     Account_new (Some (CheckingAccount (Num 500) (Num 10))) cid initialBalance ''checking'' w"

text \<open>\<^verbatim>\<open>Account.prototype._canWithdraw\<close>, and the method after overriding.\<close>

definition Account_canWithdraw :: "number \<Rightarrow> account \<Rightarrow> bool" where
  "Account_canWithdraw amt a \<longleftrightarrow>
     js_ge (balance a) amt \<and>
     js_le (js_add (todayWithdrawn a) amt) (dailyWithdrawalLimit a)"

definition canWithdraw :: "number \<Rightarrow> account \<Rightarrow> bool" where
  "canWithdraw amt a =
     (case cls a of
        SavingsAccount rate minBal \<Rightarrow>
          (let canWithdrawFromParent = Account_canWithdraw amt a;
               maintainsMinBalance = js_ge (js_sub (balance a) amt) minBal
           in canWithdrawFromParent \<and> maintainsMinBalance)
      | CheckingAccount overdraft mfee \<Rightarrow>
          (let availableBalance = js_add (balance a) overdraft
           in js_ge availableBalance amt \<and>
              js_le (js_add (todayWithdrawn a) amt) (dailyWithdrawalLimit a)))"

definition deposit :: "number \<Rightarrow> account \<Rightarrow> world \<Rightarrow> (error + number) \<times> account \<times> world" where
  "deposit amt a w =
     (if js_le amt (Num 0) then (Inl InvalidAmount, a, w)
      else
        let a1 = a\<lparr>balance := js_add (balance a) amt\<rparr>;
            (r, a2, w2) = addTransaction TDeposit amt (Deposit_to (accountNumber a1)) a1 w
        in (Inr (balance a2), a2, w2))"

definition withdraw :: "number \<Rightarrow> account \<Rightarrow> world \<Rightarrow> (error + number) \<times> account \<times> world" where
  "withdraw amt a w =
     (if js_le amt (Num 0) then (Inl InvalidAmount, a, w)
      else if \<not> canWithdraw amt a then (Inl WithdrawalDenied, a, w)
      else
        let a1 = a\<lparr>balance := js_sub (balance a) amt\<rparr>;
            a2 = a1\<lparr>todayWithdrawn := js_add (todayWithdrawn a1) amt\<rparr>;
            (r, a3, w3) = addTransaction TWithdrawal amt (Withdrawal_from (accountNumber a2)) a2 w
        in (Inr (balance a3), a3, w3))"

text \<open>The getter \<^verbatim>\<open>transactions\<close>: a new array holding the same object references.\<close>

definition get_transactions :: "account \<Rightarrow> nat list" where
  "get_transactions a = transactions a"

text \<open>
  \<^verbatim>\<open>calculateInterest\<close> has no assignment in either subclass, so it is a function of the
  account alone. \<^verbatim>\<open>applyInterest\<close> exists on \<^verbatim>\<open>SavingsAccount\<close> only and
  \<^verbatim>\<open>chargeMonthlyFee\<close> on \<^verbatim>\<open>CheckingAccount\<close> only.
\<close>

definition calculateInterest :: "number \<Rightarrow> account \<Rightarrow> number" where
  "calculateInterest months a =
     (case cls a of
        SavingsAccount rate minBal \<Rightarrow>
          (let monthlyRate = js_div rate (Num 12);
               interest = js_mul (js_mul (balance a) monthlyRate) months
           in interest)
      | CheckingAccount overdraft mfee \<Rightarrow> Num 0)"

definition applyInterest :: "number \<Rightarrow> account \<Rightarrow> world \<Rightarrow> (error + number) \<times> account \<times> world" where
  "applyInterest months a w =
     (case cls a of
        SavingsAccount rate minBal \<Rightarrow>
          (let interest = calculateInterest months a;
               a1 = a\<lparr>balance := js_add (balance a) interest\<rparr>;
               (r, a2, w2) = addTransaction TInterest interest (Interest_applied months) a1 w
           in (Inr interest, a2, w2))
      | CheckingAccount overdraft mfee \<Rightarrow> (Inl NotAFunction, a, w))"

definition chargeMonthlyFee :: "account \<Rightarrow> world \<Rightarrow> (error + bool) \<times> account \<times> world" where
  "chargeMonthlyFee a w =
     (case cls a of
        SavingsAccount rate minBal \<Rightarrow> (Inl NotAFunction, a, w)
      | CheckingAccount overdraft mfee \<Rightarrow>
          if js_ge (balance a) mfee then
            (let a1 = a\<lparr>balance := js_sub (balance a) mfee\<rparr>;
                 (r, a2, w2) = addTransaction TFee (js_neg mfee) Monthly_fee a1 w
             in (Inr True, a2, w2))
          else (Inr False, a, w))"

section \<open>Customer\<close>

text \<open>
  \<^verbatim>\<open>String.prototype.toLowerCase\<close> is a built-in, not code of the repository. It is modelled
  on ASCII text: the letters A to Z are mapped to a to z, every other character is kept.
\<close>

definition toLowerCase_char :: "char \<Rightarrow> char" where
  "toLowerCase_char ch =
     (let n = (of_char ch :: nat) in if 65 \<le> n \<and> n \<le> 90 then char_of (n + 32) else ch)"

definition toLowerCase :: "string \<Rightarrow> string" where
  "toLowerCase s = map toLowerCase_char s"

definition getAccount :: "nat \<Rightarrow> customer \<Rightarrow> account option" where
  "getAccount accountNo c = map_of (accounts c) accountNo"

text \<open>
  An account object is mutated in place and stays in the customer's Map under its key;
  in the model the changed object is stored back under that key. \<^verbatim>\<open>Map.prototype.set\<close>
  replaces the value of a key that is present and appends a new key at the end, which is
  \<^const>\<open>AList.update\<close>.
\<close>

definition storeAccount :: "nat \<Rightarrow> account \<Rightarrow> customer \<Rightarrow> customer" where
  "storeAccount accountNo a c = c\<lparr>accounts := AList.update accountNo a (accounts c)\<rparr>"

definition openAccount ::
  "string \<Rightarrow> number \<Rightarrow> customer \<Rightarrow> world \<Rightarrow> (error + account) \<times> customer \<times> world" where
  "openAccount aty initialDeposit c w =
     (let t = toLowerCase aty;
          made =
            (if t = ''savings'' then Some (SavingsAccount_new (customerId c) initialDeposit w)
             else if t = ''checking'' then Some (CheckingAccount_new (customerId c) initialDeposit w)
             else None)
      in case made of
           None \<Rightarrow> (Inl UnknownAccountType, c, w)
         | Some (Inl e, w1) \<Rightarrow> (Inl e, c, w1)
         | Some (Inr a, w1) \<Rightarrow> (Inr a, storeAccount (accountNumber a) a c, w1))"

text \<open>
  \<^verbatim>\<open>transfer\<close>. Each entry of the Map holds an object of its own (\<^verbatim>\<open>openAccount\<close> is the
  only writer and stores a fresh object under a fresh number), so the identity test
  \<^verbatim>\<open>fromAccount === toAccount\<close> on two entries that exist is the equality of their keys.
  The result is the pair \<^verbatim>\<open>{from, to}\<close> of balances.
\<close>

definition transfer ::
  "nat \<Rightarrow> nat \<Rightarrow> number \<Rightarrow> customer \<Rightarrow> world \<Rightarrow> (error + number \<times> number) \<times> customer \<times> world" where
  "transfer fromNo toNo amt c w =
     (case (getAccount fromNo c, getAccount toNo c) of
        (Some fromAccount, Some toAccount) \<Rightarrow>
          if fromNo = toNo then (Inl SameAccountTransfer, c, w)
          else
            (case withdraw amt fromAccount w of
               (Inl e, from1, w1) \<Rightarrow> (Inl e, storeAccount fromNo from1 c, w1)
             | (Inr b1, from1, w1) \<Rightarrow>
                 (case deposit amt toAccount w1 of
                    (Inl e, to1, w2) \<Rightarrow>
                      (Inl e, storeAccount toNo to1 (storeAccount fromNo from1 c), w2)
                  | (Inr b2, to1, w2) \<Rightarrow>
                      let (r1, from2, w3) =
                            addTransaction TTransferOut amt (Transferred_to toNo) from1 w2;
                          (r2, to2, w4) =
                            addTransaction TTransferIn amt (Received_from fromNo) to1 w3
                      in (Inr (balance from2, balance to2),
                          storeAccount toNo to2 (storeAccount fromNo from2 c), w4)))
      | _ \<Rightarrow> (Inl AccountNotFound, c, w))"

section \<open>Bank\<close>

text \<open>
  \<^verbatim>\<open>new Bank(name, location)\<close> yields the address of the object the expression evaluates
  to: the existing instance when there is one (the object just allocated is dropped and
  never reachable), the new object otherwise.
\<close>

definition Bank_new :: "string \<Rightarrow> string \<Rightarrow> world \<Rightarrow> nat \<times> world" where
  "Bank_new name loc w =
     (case bankInstance w of
        Some r \<Rightarrow> (r, w)
      | None \<Rightarrow>
          let r = length (bankHeap w);
              this = \<lparr>bankName = name, location = loc, customers = [], totalDeposits = Num 0,
                      totalLoans = Num 0, bankBalance = Num 1000000,
                      transactionFee = Num (1 / 2)\<rparr>
          in (r, w\<lparr>bankHeap := bankHeap w @ [this], bankInstance := Some r\<rparr>))"

definition getInstance :: "string \<Rightarrow> string \<Rightarrow> world \<Rightarrow> nat option \<times> world" where
  "getInstance name loc w =
     (let w1 = (if bankInstance w = None then snd (Bank_new name loc w) else w)
      in (bankInstance w1, w1))"

section \<open>Notions used by the properties\<close>

text \<open>The records of an account, read from the store, oldest first.\<close>

definition history :: "account \<Rightarrow> world \<Rightarrow> transaction list" where
  "history a w = map (\<lambda>r. txHeap w ! r) (transactions a)"

text \<open>
  The amount of a record with the sign of the movement it records. A withdrawal and a
  \<^verbatim>\<open>transfer_out\<close> are recorded with the positive amount that leaves the account, so they
  count negated. Every other record carries its sign in the amount itself: the opening
  balance, a deposit, a \<^verbatim>\<open>transfer_in\<close> and interest are recorded as the amount added, and
  a fee is recorded as \<^verbatim>\<open>-this._monthlyFee\<close>.
\<close>

definition signedAmount :: "transaction \<Rightarrow> number" where
  "signedAmount t =
     (case tx_type t of
        TWithdrawal \<Rightarrow> js_neg (amount t)
      | TTransferOut \<Rightarrow> js_neg (amount t)
      | _ \<Rightarrow> amount t)"

definition completedAmounts :: "account \<Rightarrow> world \<Rightarrow> number list" where
  "completedAmounts a w =
     map signedAmount (filter (\<lambda>t. status t = Completed) (history a w))"

text \<open>
  The sum of a list of numbers as the machine accumulates it: from the first number on,
  each next one is added with \<open>js_add\<close>, so every partial sum is rounded. (Starting from
  0 instead gives the same, as 0 plus a double is that double.)
\<close>

definition running_sum :: "number list \<Rightarrow> number" where
  "running_sum xs = (case xs of [] \<Rightarrow> Num 0 | x # rest \<Rightarrow> foldl js_add x rest)"

definition completedSum :: "account \<Rightarrow> world \<Rightarrow> number" where
  "completedSum a w = running_sum (completedAmounts a w)"

text \<open>
  The sum and the difference with no rounding, as the claims word them: on finite numbers
  the exact rational result, which need not be a double.
\<close>

fun exact_add :: "number \<Rightarrow> number \<Rightarrow> number" where
  "exact_add (Num a) (Num b) = Num (a + b)"
| "exact_add x y = js_add x y"

definition exact_sub :: "number \<Rightarrow> number \<Rightarrow> number" where
  "exact_sub x y = exact_add x (js_neg y)"

definition exact_sum :: "number list \<Rightarrow> number" where
  "exact_sum xs = foldl exact_add (Num 0) xs"

text \<open>
  The ledger invariant: every address the account holds is allocated in the store, the
  account has a completed record, and the balance is the running sum of the signed
  amounts of the account's completed records.
\<close>

definition refs_valid :: "account \<Rightarrow> world \<Rightarrow> bool" where
  "refs_valid a w \<longleftrightarrow> list_all (\<lambda>r. r < length (txHeap w)) (transactions a)"

definition ledger_ok :: "account \<Rightarrow> world \<Rightarrow> bool" where
  "ledger_ok a w \<longleftrightarrow>
     refs_valid a w \<and> completedAmounts a w \<noteq> [] \<and> balance a = completedSum a w"

text \<open>
  A caller's requests to one account, made one after the other. A request that throws
  leaves the objects as the method left them, and the caller goes on with the next one;
  a run in which every request succeeds is one of these runs.
\<close>

datatype request = Deposit number | Withdraw number | ApplyInterest number | ChargeMonthlyFee

fun perform :: "request \<Rightarrow> account \<Rightarrow> world \<Rightarrow> account \<times> world" where
  "perform (Deposit amt) a w = snd (deposit amt a w)"
| "perform (Withdraw amt) a w = snd (withdraw amt a w)"
| "perform (ApplyInterest m) a w = snd (applyInterest m a w)"
| "perform ChargeMonthlyFee a w = snd (chargeMonthlyFee a w)"

fun perform_all :: "request list \<Rightarrow> account \<Rightarrow> world \<Rightarrow> account \<times> world" where
  "perform_all [] a w = (a, w)"
| "perform_all (q # qs) a w = (case perform q a w of (a1, w1) \<Rightarrow> perform_all qs a1 w1)"

section \<open>Example objects\<close>

text \<open>
  The account that \<^verbatim>\<open>new SavingsAccount(7, b)\<close> or \<^verbatim>\<open>new CheckingAccount(7, b)\<close> builds
  when the page has just been loaded, and the statics and stores after that call.
\<close>

definition opened_savings :: "number \<Rightarrow> account" where
  "opened_savings b =
     \<lparr>accountNumber = 1000, ownerId = 7, balance = b, accountType = ''savings'',
      transactions = [0], accountActive = True, dailyWithdrawalLimit = Num 1000,
      todayWithdrawn = Num 0, cls = SavingsAccount (double_of (2 / 100)) (Num 100)\<rparr>"

definition opened_checking :: "number \<Rightarrow> account" where
  "opened_checking b =
     \<lparr>accountNumber = 1000, ownerId = 7, balance = b, accountType = ''checking'',
      transactions = [0], accountActive = True, dailyWithdrawalLimit = Num 1000,
      todayWithdrawn = Num 0, cls = CheckingAccount (Num 500) (Num 10)\<rparr>"

definition opened_world :: "number \<Rightarrow> world" where
  "opened_world b =
     \<lparr>idCounter = 2, accountCounter = 1001,
      txHeap = [\<lparr>tx_id = 1, tx_type = TAccountOpening, amount = b,
                 description = Account_opened, status = Completed\<rparr>],
      bankHeap = [], bankInstance = None\<rparr>"

text \<open>
  A customer with a savings account of 1000 and a checking account of 50, opened in that
  order on a page just loaded, and the statics and stores after the two calls.
\<close>

definition john :: customer where
  "john = \<lparr>customerId = 7, firstName = ''John'', lastName = ''Doe'',
            email = ''john@example.com'', password = ''c2VjcmV0MTIzc2FsdA=='',
            accounts = [], isActive = True\<rparr>"

definition john_checking :: account where
  "john_checking = (opened_checking (Num 50))\<lparr>accountNumber := 1001, transactions := [1]\<rparr>"

definition john_two :: customer where
  "john_two = john\<lparr>accounts := [(1000, opened_savings (Num 1000)), (1001, john_checking)]\<rparr>"

definition john_world :: world where
  "john_world =
     \<lparr>idCounter = 3, accountCounter = 1002,
      txHeap = [\<lparr>tx_id = 1, tx_type = TAccountOpening, amount = Num 1000,
                 description = Account_opened, status = Completed\<rparr>,
                \<lparr>tx_id = 2, tx_type = TAccountOpening, amount = Num 50,
                 description = Account_opened, status = Completed\<rparr>],
      bankHeap = [], bankInstance = None\<rparr>"

text \<open>
  The bank that \<^verbatim>\<open>Bank.getInstance('OOP Bank', 'Digital City')\<close> constructs, and a later
  state in which that bank has a customer.
\<close>

definition oop_bank :: bank where
  "oop_bank = \<lparr>bankName = ''OOP Bank'', location = ''Digital City'', customers = [],
               totalDeposits = Num 0, totalLoans = Num 0, bankBalance = Num 1000000,
               transactionFee = Num (1 / 2)\<rparr>"

definition bank_world :: world where
  "bank_world = john_world\<lparr>bankHeap := [oop_bank\<lparr>customers := [(7, john_two)]\<rparr>],
                           bankInstance := Some 0\<rparr>"

text \<open>
  The same customer with a savings account of 1000.3 and a checking account of 0.2 (the
  literals denote the nearest doubles), and a checking account opened with 5000 after a
  withdrawal of 1000.
\<close>

definition second_checking :: "number \<Rightarrow> account" where
  "second_checking b = (opened_checking b)\<lparr>accountNumber := 1001, transactions := [1]\<rparr>"

definition cents_customer :: customer where
  "cents_customer =
     john\<lparr>accounts := [(1000, opened_savings (double_of (10003 / 10))),
                        (1001, second_checking (double_of (2 / 10)))]\<rparr>"

definition cents_world :: world where
  "cents_world =
     \<lparr>idCounter = 3, accountCounter = 1002,
      txHeap = [\<lparr>tx_id = 1, tx_type = TAccountOpening, amount = double_of (10003 / 10),
                 description = Account_opened, status = Completed\<rparr>,
                \<lparr>tx_id = 2, tx_type = TAccountOpening, amount = double_of (2 / 10),
                 description = Account_opened, status = Completed\<rparr>],
      bankHeap = [], bankInstance = None\<rparr>"

definition withdrawn_1000 :: account where
  "withdrawn_1000 =
     (opened_checking (Num 4000))\<lparr>todayWithdrawn := Num 1000, transactions := [0, 1]\<rparr>"

definition withdrawn_1000_world :: world where
  "withdrawn_1000_world =
     \<lparr>idCounter = 3, accountCounter = 1001,
      txHeap = [\<lparr>tx_id = 1, tx_type = TAccountOpening, amount = Num 5000,
                 description = Account_opened, status = Completed\<rparr>,
                \<lparr>tx_id = 2, tx_type = TWithdrawal, amount = Num 1000,
                 description = Withdrawal_from 1000, status = Completed\<rparr>],
      bankHeap = [], bankInstance = None\<rparr>"

section \<open>Basic facts\<close>

text \<open>
  Instances of the arithmetic, evaluated: 0.1 + 0.2 is 0.30000000000000004, a tie goes
  to the even neighbour (2^53 + 1 is 2^53, 2^53 + 3 is 2^53 + 4), 1000.3 - 0.1 is
  1000.1999999999999, 1000 + 5e-14 is 1000, 100.3 - 0.3 is 100, and -1/3 rounds as
  1/3 does.
\<close>

lemma double_examples:
  "double_of (1 / 10) = Num (3602879701896397 / 36028797018963968)"
  "double_of (2 / 100) = Num (5764607523034235 / 288230376151711744)"
  "js_add (double_of (1 / 10)) (double_of (2 / 10)) = Num (1351079888211149 / 4503599627370496)"
  "js_add (Num 9007199254740992) (Num 1) = Num 9007199254740992"
  "js_add (Num 9007199254740992) (Num 3) = Num 9007199254740996"
  "js_sub (double_of (10003 / 10)) (double_of (1 / 10)) =
     Num (8797852240812441 / 8796093022208)"
  "js_add (Num 1000) (double_of (5 / 10 ^ 14)) = Num 1000"
  "js_sub (double_of (1003 / 10)) (double_of (3 / 10)) = Num 100"
  "double_of (- 1 / 3) = Num (- (6004799503160661 / 18014398509481984))"
  "js_sub PosInfinity PosInfinity = NaN"
  "js_le NaN NaN = False"
  "is_double (double_of (1 / 10))"
  "\<not> is_double (Num (1 / 10))"
  "is_double (Num 1000)"
  by code_simp+

lemma js_lt_not_le: "js_lt x y \<Longrightarrow> \<not> js_le y x"
  by (cases x; cases y) simp_all

lemma js_sub_add_neg: "js_sub x y = js_add x (js_neg y)"
  by (cases x; cases y) simp_all

lemma js_add_zero_double: "is_double x \<Longrightarrow> js_add (Num 0) x = x"
  by (cases x) (simp_all add: is_double_def)

lemma addTransaction_eq:
  "addTransaction ty amt d a w =
     (length (txHeap w),
      a\<lparr>transactions := transactions a @ [length (txHeap w)]\<rparr>,
      w\<lparr>idCounter := idCounter w + 1,
        txHeap := txHeap w @
          [\<lparr>tx_id = idCounter w, tx_type = ty, amount = amt, description = d,
            status = Completed\<rparr>]\<rparr>)"
  by (simp add: addTransaction_def Transaction_new_def complete_def)

lemma SavingsAccount_new_initial:
  "SavingsAccount_new 7 b initial_world = (Inr (opened_savings b), opened_world b)"
  by (simp add: SavingsAccount_new_def Account_new_def addTransaction_eq initial_world_def
      opened_savings_def opened_world_def)

lemma CheckingAccount_new_initial:
  "CheckingAccount_new 7 b initial_world = (Inr (opened_checking b), opened_world b)"
  by (simp add: CheckingAccount_new_def Account_new_def addTransaction_eq initial_world_def
      opened_checking_def opened_world_def)

lemma withdraw_invalid:
  "js_le amt (Num 0) \<Longrightarrow> withdraw amt a w = (Inl InvalidAmount, a, w)"
  by (simp add: withdraw_def)

lemma withdraw_denied:
  "\<not> js_le amt (Num 0) \<Longrightarrow> \<not> canWithdraw amt a \<Longrightarrow>
   withdraw amt a w = (Inl WithdrawalDenied, a, w)"
  by (simp add: withdraw_def)

lemma withdraw_ok:
  "\<not> js_le amt (Num 0) \<Longrightarrow> canWithdraw amt a \<Longrightarrow>
   withdraw amt a w =
     (Inr (js_sub (balance a) amt),
      a\<lparr>balance := js_sub (balance a) amt,
        todayWithdrawn := js_add (todayWithdrawn a) amt,
        transactions := transactions a @ [length (txHeap w)]\<rparr>,
      w\<lparr>idCounter := idCounter w + 1,
        txHeap := txHeap w @
          [\<lparr>tx_id = idCounter w, tx_type = TWithdrawal, amount = amt,
            description = Withdrawal_from (accountNumber a), status = Completed\<rparr>]\<rparr>)"
  by (simp add: withdraw_def addTransaction_eq)

lemma deposit_invalid:
  "js_le amt (Num 0) \<Longrightarrow> deposit amt a w = (Inl InvalidAmount, a, w)"
  by (simp add: deposit_def)

lemma deposit_ok:
  "\<not> js_le amt (Num 0) \<Longrightarrow>
   deposit amt a w =
     (Inr (js_add (balance a) amt),
      a\<lparr>balance := js_add (balance a) amt,
        transactions := transactions a @ [length (txHeap w)]\<rparr>,
      w\<lparr>idCounter := idCounter w + 1,
        txHeap := txHeap w @
          [\<lparr>tx_id = idCounter w, tx_type = TDeposit, amount = amt,
            description = Deposit_to (accountNumber a), status = Completed\<rparr>]\<rparr>)"
  by (simp add: deposit_def addTransaction_eq)


lemma canWithdraw_checking:
  "cls a = CheckingAccount overdraft mfee \<Longrightarrow>
   canWithdraw amt a \<longleftrightarrow>
     js_le amt (js_add (balance a) overdraft) \<and>
     js_le (js_add (todayWithdrawn a) amt) (dailyWithdrawalLimit a)"
  by (simp add: canWithdraw_def js_ge_def)

lemma canWithdraw_daily_limit:
  "canWithdraw amt a \<Longrightarrow> js_le (js_add (todayWithdrawn a) amt) (dailyWithdrawalLimit a)"
  by (cases "cls a") (simp_all add: canWithdraw_def Account_canWithdraw_def)

lemma storeAccount_same: "getAccount k c = Some a \<Longrightarrow> storeAccount k a c = c"
  by (simp add: getAccount_def storeAccount_def update_triv)

lemma getAccount_storeAccount:
  "getAccount k (storeAccount k' a c) = (if k = k' then Some a else getAccount k c)"
  by (simp add: getAccount_def storeAccount_def update_conv')

lemma john_opens_two_accounts:
  "openAccount ''savings'' (Num 1000) john initial_world =
     (Inr (opened_savings (Num 1000)),
      john\<lparr>accounts := [(1000, opened_savings (Num 1000))]\<rparr>, opened_world (Num 1000)) \<and>
   openAccount ''checking'' (Num 50) (john\<lparr>accounts := [(1000, opened_savings (Num 1000))]\<rparr>)
       (opened_world (Num 1000)) =
     (Inr john_checking, john_two, john_world)"
  by (simp add: openAccount_def toLowerCase_def toLowerCase_char_def SavingsAccount_new_def
      CheckingAccount_new_def Account_new_def addTransaction_eq storeAccount_def
      john_def john_two_def john_world_def john_checking_def opened_savings_def
      opened_checking_def opened_world_def initial_world_def Let_def)

text \<open>
  The constructor sets the daily limit to 1000 and the fields of the subclass; no request
  assigns them again, and \<open>todayWithdrawn\<close> stays within the daily limit.
\<close>

lemma Account_new_fields:
  "Account_new (Some k) cid b aty w = (Inr a, w') \<Longrightarrow>
   cls a = k \<and> dailyWithdrawalLimit a = Num 1000 \<and> todayWithdrawn a = Num 0 \<and>
   balance a = b"
  by (auto simp: Account_new_def addTransaction_eq)

lemma perform_keeps_fields:
  assumes "perform q a w = (a', w')"
  shows "cls a' = cls a \<and> dailyWithdrawalLimit a' = dailyWithdrawalLimit a \<and>
         accountNumber a' = accountNumber a"
proof (cases q)
  case (Deposit amt)
  with assms show ?thesis
    by (auto simp: deposit_def addTransaction_eq split: if_splits)
next
  case (Withdraw amt)
  with assms show ?thesis
    by (auto simp: withdraw_def addTransaction_eq split: if_splits)
next
  case (ApplyInterest m)
  with assms show ?thesis
    by (cases "cls a") (auto simp: applyInterest_def addTransaction_eq Let_def)
next
  case ChargeMonthlyFee
  with assms show ?thesis
    by (cases "cls a") (auto simp: chargeMonthlyFee_def addTransaction_eq split: if_splits)
qed

lemma perform_all_keeps_fields:
  "perform_all qs a w = (a', w') \<Longrightarrow>
   cls a' = cls a \<and> dailyWithdrawalLimit a' = dailyWithdrawalLimit a \<and>
   accountNumber a' = accountNumber a"
proof (induction qs arbitrary: a w)
  case Nil
  then show ?case by simp
next
  case (Cons q qs)
  obtain a1 w1 where step: "perform q a w = (a1, w1)"
    by (cases "perform q a w")
  with Cons.prems have "perform_all qs a1 w1 = (a', w')" by simp
  from Cons.IH [OF this] perform_keeps_fields [OF step] show ?case by simp
qed

lemma perform_today_within_limit:
  assumes "js_le (todayWithdrawn a) (dailyWithdrawalLimit a)" and "perform q a w = (a', w')"
  shows "js_le (todayWithdrawn a') (dailyWithdrawalLimit a')"
proof (cases q)
  case (Deposit amt)
  with assms show ?thesis
    by (auto simp: deposit_def addTransaction_eq split: if_splits)
next
  case (Withdraw amt)
  with assms show ?thesis
    by (auto simp: withdraw_def addTransaction_eq split: if_splits
        dest: canWithdraw_daily_limit)
next
  case (ApplyInterest m)
  with assms show ?thesis
    by (cases "cls a") (auto simp: applyInterest_def addTransaction_eq Let_def)
next
  case ChargeMonthlyFee
  with assms show ?thesis
    by (cases "cls a") (auto simp: chargeMonthlyFee_def addTransaction_eq split: if_splits)
qed

lemma cents_opened:
  "openAccount ''savings'' (double_of (10003 / 10)) john initial_world =
     (Inr (opened_savings (double_of (10003 / 10))),
      john\<lparr>accounts := [(1000, opened_savings (double_of (10003 / 10)))]\<rparr>,
      opened_world (double_of (10003 / 10))) \<and>
   openAccount ''checking'' (double_of (2 / 10))
       (john\<lparr>accounts := [(1000, opened_savings (double_of (10003 / 10)))]\<rparr>)
       (opened_world (double_of (10003 / 10))) =
     (Inr (second_checking (double_of (2 / 10))), cents_customer, cents_world)"
  by (simp add: openAccount_def toLowerCase_def toLowerCase_char_def SavingsAccount_new_def
      CheckingAccount_new_def Account_new_def addTransaction_eq storeAccount_def
      john_def cents_customer_def cents_world_def second_checking_def opened_savings_def
      opened_checking_def opened_world_def initial_world_def Let_def)

section \<open>Withdrawal rules\<close>

text \<open>
  Claim C4, as amended. For a checking account with overdraft limit \<open>overdraft\<close>, a
  withdrawal of a positive amount up to \<open>balance + overdraft\<close> succeeds and returns
  \<open>balance - amount\<close>, provided that \<open>todayWithdrawn + amount\<close> stays within
  \<open>dailyWithdrawalLimit\<close>; a withdrawal of a positive amount above \<open>balance + overdraft\<close>
  (one unit above 100 + 500, for one) fails with \<open>WithdrawalDenied\<close> and changes nothing.
  The sums and the difference are the doubles the code computes.
\<close>

theorem checking_withdraw_overdraft:
  assumes "cls a = CheckingAccount overdraft mfee" and "js_lt (Num 0) amt"
  shows "(js_le amt (js_add (balance a) overdraft) \<and>
          js_le (js_add (todayWithdrawn a) amt) (dailyWithdrawalLimit a)
            \<longrightarrow> fst (withdraw amt a w) = Inr (js_sub (balance a) amt)) \<and>
         (js_lt (js_add (balance a) overdraft) amt
            \<longrightarrow> withdraw amt a w = (Inl WithdrawalDenied, a, w))"
  using assms js_lt_not_le [of "Num 0" amt] js_lt_not_le [of "js_add (balance a) overdraft" amt]
  by (auto simp: withdraw_ok withdraw_denied canWithdraw_checking)

theorem checking_withdraw_overdraft_witness:
  "cls (opened_checking (Num 100)) = CheckingAccount (Num 500) (Num 10) \<and>
   js_lt (Num 0) (Num 600) \<and>
   js_le (Num 600) (js_add (balance (opened_checking (Num 100))) (Num 500)) \<and>
   js_le (js_add (todayWithdrawn (opened_checking (Num 100))) (Num 600))
     (dailyWithdrawalLimit (opened_checking (Num 100))) \<and>
   fst (withdraw (Num 600) (opened_checking (Num 100)) (opened_world (Num 100))) =
     Inr (Num (- 500)) \<and>
   js_lt (js_add (balance (opened_checking (Num 100))) (Num 500)) (Num 601) \<and>
   withdraw (Num 601) (opened_checking (Num 100)) (opened_world (Num 100)) =
     (Inl WithdrawalDenied, opened_checking (Num 100), opened_world (Num 100))"
proof -
  have c: "cls (opened_checking (Num 100)) = CheckingAccount (Num 500) (Num 10)"
    by (simp add: opened_checking_def)
  have ar: "js_add (balance (opened_checking (Num 100))) (Num 500) = Num 600"
    "js_add (todayWithdrawn (opened_checking (Num 100))) (Num 600) = Num 600"
    "js_sub (balance (opened_checking (Num 100))) (Num 600) = Num (- 500)"
    "dailyWithdrawalLimit (opened_checking (Num 100)) = Num 1000"
    by code_simp+
  show ?thesis
    using checking_withdraw_overdraft [OF c, of "Num 600" "opened_world (Num 100)"]
          checking_withdraw_overdraft [OF c, of "Num 601" "opened_world (Num 100)"]
    by (simp add: c ar)
qed

text \<open>
  Claim C4 as stated fails: the checking account opened with 2000 has
  \<open>balance + overdraftLimit = 2500\<close>, exactly and as a double, and the withdrawal of 1500
  is denied, because it exceeds the daily withdrawal limit of 1000.
\<close>

theorem checking_withdraw_overdraft_counterexample:
  "CheckingAccount_new 7 (Num 2000) initial_world =
     (Inr (opened_checking (Num 2000)), opened_world (Num 2000)) \<and>
   cls (opened_checking (Num 2000)) = CheckingAccount (Num 500) (Num 10) \<and>
   js_lt (Num 0) (Num 1500) \<and>
   js_le (Num 1500) (exact_add (balance (opened_checking (Num 2000))) (Num 500)) \<and>
   js_le (Num 1500) (js_add (balance (opened_checking (Num 2000))) (Num 500)) \<and>
   withdraw (Num 1500) (opened_checking (Num 2000)) (opened_world (Num 2000)) =
     (Inl WithdrawalDenied, opened_checking (Num 2000), opened_world (Num 2000))"
proof -
  have ar: "js_add (balance (opened_checking (Num 2000))) (Num 500) = Num 2500"
    "exact_add (balance (opened_checking (Num 2000))) (Num 500) = Num 2500"
    "js_add (todayWithdrawn (opened_checking (Num 2000))) (Num 1500) = Num 1500"
    "dailyWithdrawalLimit (opened_checking (Num 2000)) = Num 1000"
    by code_simp+
  have c: "cls (opened_checking (Num 2000)) = CheckingAccount (Num 500) (Num 10)"
    by (simp add: opened_checking_def)
  have "\<not> canWithdraw (Num 1500) (opened_checking (Num 2000))"
    by (simp add: canWithdraw_checking [OF c] ar)
  then show ?thesis
    by (simp add: CheckingAccount_new_initial withdraw_denied c ar)
qed

text \<open>
  Claim C5, as amended. On an account whose \<open>dailyWithdrawalLimit\<close> is the 1000 the
  constructor sets, a successful withdrawal replaces \<open>todayWithdrawn\<close> by the double sum
  \<open>todayWithdrawn + amount\<close>, and the new \<open>todayWithdrawn\<close> is at most 1000; a withdrawal
  for which that double sum is not at most 1000 fails, whatever the amount and the
  balance, and changes nothing.
\<close>

theorem daily_withdrawal_limit:
  assumes "dailyWithdrawalLimit a = Num 1000" and "withdraw amt a w = (res, a', w')"
  shows "(\<not> isl res \<longrightarrow>
            todayWithdrawn a' = js_add (todayWithdrawn a) amt \<and>
            js_le (todayWithdrawn a') (Num 1000) \<and>
            dailyWithdrawalLimit a' = Num 1000) \<and>
         (\<not> js_le (js_add (todayWithdrawn a) amt) (Num 1000) \<longrightarrow>
            res = Inl (if js_le amt (Num 0) then InvalidAmount else WithdrawalDenied) \<and>
            a' = a \<and> w' = w)"
proof (cases "\<not> js_le amt (Num 0) \<and> canWithdraw amt a")
  case True
  then have "js_le (js_add (todayWithdrawn a) amt) (Num 1000)"
    using canWithdraw_daily_limit [of amt a] assms(1) by simp
  with True assms show ?thesis
    by (auto simp: withdraw_ok)
next
  case False
  with assms show ?thesis
    by (cases "js_le amt (Num 0)") (auto simp: withdraw_invalid withdraw_denied)
qed

theorem daily_withdrawal_limit_witness:
  "let a = opened_checking (Num 5000); w = opened_world (Num 5000);
       first = withdraw (Num 600) a w; a1 = fst (snd first); w1 = snd (snd first);
       second = withdraw (Num 600) a1 w1
   in dailyWithdrawalLimit a = Num 1000 \<and> \<not> isl (fst first) \<and>
      todayWithdrawn a1 = Num 600 \<and> js_le (todayWithdrawn a1) (Num 1000) \<and>
      dailyWithdrawalLimit a1 = Num 1000 \<and>
      \<not> js_le (js_add (todayWithdrawn a1) (Num 600)) (Num 1000) \<and>
      fst second = Inl WithdrawalDenied \<and> snd second = (a1, w1)"
proof -
  define a where "a = opened_checking (Num 5000)"
  define w where "w = opened_world (Num 5000)"
  obtain res a1 w1 where first: "withdraw (Num 600) a w = (res, a1, w1)"
    by (metis prod_cases3)
  obtain res2 a2 w2 where second: "withdraw (Num 600) a1 w1 = (res2, a2, w2)"
    by (metis prod_cases3)
  have lim: "dailyWithdrawalLimit a = Num 1000"
    by (simp add: a_def opened_checking_def)
  have ar: "double_of 5500 = Num 5500" "double_of 600 = Num 600"
    "double_of 1200 = Num 1200"
    by code_simp+
  have "canWithdraw (Num 600) a"
    by (simp add: canWithdraw_def js_ge_def a_def opened_checking_def ar)
  then have ok: "\<not> isl res"
    using first by (auto simp: withdraw_ok)
  have today: "todayWithdrawn a = Num 0"
    by (simp add: a_def opened_checking_def)
  note step1 = daily_withdrawal_limit [OF lim first]
  then have lim1: "dailyWithdrawalLimit a1 = Num 1000" and t1: "todayWithdrawn a1 = Num 600"
    using ok today ar by simp_all
  note step2 = daily_withdrawal_limit [OF lim1 second]
  show ?thesis
    using step1 step2 ok t1 first second today lim
    by (simp add: Let_def a_def [symmetric] w_def [symmetric] ar)
qed

text \<open>
  Claim C5 as stated fails where the sum rounds. After a withdrawal of 1000 from a
  checking account opened with 5000, \<open>todayWithdrawn\<close> is 1000. The amount 5e-14 added to
  it exceeds 1000, yet \<^verbatim>\<open>1000 + 5e-14\<close> is the double 1000: the withdrawal succeeds, and
  \<open>todayWithdrawn\<close> stays 1000 instead of growing by the amount.
\<close>

theorem daily_withdrawal_limit_counterexample:
  "withdraw (Num 1000) (opened_checking (Num 5000)) (opened_world (Num 5000)) =
     (Inr (Num 4000), withdrawn_1000, withdrawn_1000_world) \<and>
   todayWithdrawn withdrawn_1000 = Num 1000 \<and>
   js_lt (Num 0) (double_of (5 / 10 ^ 14)) \<and>
   js_lt (Num 1000) (exact_add (todayWithdrawn withdrawn_1000) (double_of (5 / 10 ^ 14))) \<and>
   fst (withdraw (double_of (5 / 10 ^ 14)) withdrawn_1000 withdrawn_1000_world) =
     Inr (Num 4000) \<and>
   todayWithdrawn (fst (snd (withdraw (double_of (5 / 10 ^ 14)) withdrawn_1000
     withdrawn_1000_world))) = Num 1000"
  by code_simp




section \<open>Interest\<close>

text \<open>
  Claim C7, as amended. On a savings account (interest rate the double 0.02),
  \<open>calculateInterest m\<close> is the double that \<^verbatim>\<open>balance * (0.02 / 12) * m\<close> evaluates to, the
  quotient and each product rounded; it takes and returns no state. \<open>applyInterest m\<close>
  returns that amount, replaces the balance by the double sum of balance and interest,
  and appends one record of type \<open>interest\<close> with that amount and status \<open>completed\<close>;
  nothing else changes.
\<close>

theorem savings_interest:
  assumes "cls a = SavingsAccount (double_of (2 / 100)) minBal"
    and "i = js_mul (js_mul (balance a) (js_div (double_of (2 / 100)) (Num 12))) m"
  shows "calculateInterest m a = i \<and>
         applyInterest m a w =
           (Inr i,
            a\<lparr>balance := js_add (balance a) i,
              transactions := transactions a @ [length (txHeap w)]\<rparr>,
            w\<lparr>idCounter := idCounter w + 1,
              txHeap := txHeap w @
                [\<lparr>tx_id = idCounter w, tx_type = TInterest, amount = i,
                  description = Interest_applied m, status = Completed\<rparr>]\<rparr>)"
  using assms(1) unfolding assms(2)
  by (simp add: calculateInterest_def applyInterest_def addTransaction_eq Let_def)

lemma interest_on_1000:
  "js_mul (js_mul (Num 1000) (js_div (double_of (2 / 100)) (Num 12))) (Num 1) =
     Num (7505999378950827 / 4503599627370496)"
  "js_add (Num 1000) (Num (7505999378950827 / 4503599627370496)) =
     Num (8810753177245013 / 8796093022208)"
  by code_simp+

theorem savings_interest_witness:
  "cls (opened_savings (Num 1000)) = SavingsAccount (double_of (2 / 100)) (Num 100) \<and>
   calculateInterest (Num 1) (opened_savings (Num 1000)) =
     Num (7505999378950827 / 4503599627370496) \<and>
   applyInterest (Num 1) (opened_savings (Num 1000)) (opened_world (Num 1000)) =
     (Inr (Num (7505999378950827 / 4503599627370496)),
      (opened_savings (Num 1000))
        \<lparr>balance := Num (8810753177245013 / 8796093022208), transactions := [0, 1]\<rparr>,
      (opened_world (Num 1000))\<lparr>idCounter := 3,
        txHeap := txHeap (opened_world (Num 1000)) @
          [\<lparr>tx_id = 2, tx_type = TInterest,
            amount = Num (7505999378950827 / 4503599627370496),
            description = Interest_applied (Num 1), status = Completed\<rparr>]\<rparr>)"
proof -
  have c: "cls (opened_savings (Num 1000)) = SavingsAccount (double_of (2 / 100)) (Num 100)"
    by (simp add: opened_savings_def)
  have b: "balance (opened_savings (Num 1000)) = Num 1000"
    "transactions (opened_savings (Num 1000)) = [0]"
    by (simp_all add: opened_savings_def)
  have i: "Num (7505999378950827 / 4503599627370496) =
             js_mul (js_mul (balance (opened_savings (Num 1000)))
               (js_div (double_of (2 / 100)) (Num 12))) (Num 1)"
    unfolding b by (simp only: interest_on_1000)
  show ?thesis
    using savings_interest [OF c i, of "opened_world (Num 1000)"]
    by (simp add: c b interest_on_1000 opened_world_def del: js_add.simps)
qed

text \<open>
  Claim C7 as stated fails. For a balance of 1000 and one month the code returns and
  records 1.6666666666666667, which is not 1000 * (0.02 / 12); the balance becomes
  1001.6666666666666, which is not 1000 plus the recorded amount.
\<close>

theorem savings_interest_counterexample:
  "calculateInterest (Num 1) (opened_savings (Num 1000)) =
     Num (7505999378950827 / 4503599627370496) \<and>
   (7505999378950827 / 4503599627370496 :: rat) \<noteq> 1000 * (2 / 100 / 12) * 1 \<and>
   balance (fst (snd (applyInterest (Num 1) (opened_savings (Num 1000))
     (opened_world (Num 1000))))) = Num (8810753177245013 / 8796093022208) \<and>
   exact_add (balance (opened_savings (Num 1000)))
     (calculateInterest (Num 1) (opened_savings (Num 1000))) \<noteq>
   Num (8810753177245013 / 8796093022208)"
  by code_simp

section \<open>Transfers\<close>

text \<open>
  Claim C2, as amended. Let a customer hold the distinct accounts \<open>x\<close> (under \<open>fromNo\<close>)
  and \<open>y\<close> (under \<open>toNo\<close>), and let the withdrawal of \<open>amt\<close> from \<open>x\<close> be permitted (\<open>amt\<close>
  positive, \<open>canWithdraw\<close> true). Then \<open>transfer\<close> returns the two new balances; the
  balance of \<open>x\<close> becomes the double difference \<open>balance - amt\<close> and that of \<open>y\<close> the double
  sum \<open>balance + amt\<close>; the store of records grows by exactly four completed records of
  amount \<open>amt\<close>, of types \<open>withdrawal\<close>, \<open>deposit\<close>, \<open>transfer_out\<close> and \<open>transfer_in\<close>, at
  the addresses \<open>n\<close> to \<open>n + 3\<close>; \<open>x\<close> gains the addresses of the withdrawal and the
  \<open>transfer_out\<close> record, \<open>y\<close> those of the deposit and the \<open>transfer_in\<close> record; no
  other account of the customer changes.
\<close>

theorem transfer_moves_amount:
  assumes "getAccount fromNo c = Some x" and "getAccount toNo c = Some y"
    and "fromNo \<noteq> toNo" and "js_lt (Num 0) amt" and "canWithdraw amt x"
    and "n = length (txHeap w)"
    and "x' = x\<lparr>balance := js_sub (balance x) amt,
                  todayWithdrawn := js_add (todayWithdrawn x) amt,
                  transactions := transactions x @ [n, n + 2]\<rparr>"
    and "y' = y\<lparr>balance := js_add (balance y) amt,
                  transactions := transactions y @ [n + 1, n + 3]\<rparr>"
    and "transfer fromNo toNo amt c w = (res, c', w')"
  shows "res = Inr (js_sub (balance x) amt, js_add (balance y) amt) \<and>
         getAccount fromNo c' = Some x' \<and> getAccount toNo c' = Some y' \<and>
         c' = storeAccount toNo y' (storeAccount fromNo x' c) \<and>
         w' = w\<lparr>idCounter := idCounter w + 4,
                 txHeap := txHeap w @
                   [\<lparr>tx_id = idCounter w, tx_type = TWithdrawal, amount = amt,
                     description = Withdrawal_from (accountNumber x), status = Completed\<rparr>,
                    \<lparr>tx_id = idCounter w + 1, tx_type = TDeposit, amount = amt,
                     description = Deposit_to (accountNumber y), status = Completed\<rparr>,
                    \<lparr>tx_id = idCounter w + 2, tx_type = TTransferOut, amount = amt,
                     description = Transferred_to toNo, status = Completed\<rparr>,
                    \<lparr>tx_id = idCounter w + 3, tx_type = TTransferIn, amount = amt,
                     description = Received_from fromNo, status = Completed\<rparr>]\<rparr>"
proof -
  from assms(4) have pos: "\<not> js_le amt (Num 0)"
    by (rule js_lt_not_le)
  have "transfer fromNo toNo amt c w =
          (Inr (js_sub (balance x) amt, js_add (balance y) amt),
           storeAccount toNo y' (storeAccount fromNo x' c),
           w\<lparr>idCounter := idCounter w + 4,
                 txHeap := txHeap w @
                   [\<lparr>tx_id = idCounter w, tx_type = TWithdrawal, amount = amt,
                     description = Withdrawal_from (accountNumber x), status = Completed\<rparr>,
                    \<lparr>tx_id = idCounter w + 1, tx_type = TDeposit, amount = amt,
                     description = Deposit_to (accountNumber y), status = Completed\<rparr>,
                    \<lparr>tx_id = idCounter w + 2, tx_type = TTransferOut, amount = amt,
                     description = Transferred_to toNo, status = Completed\<rparr>,
                    \<lparr>tx_id = idCounter w + 3, tx_type = TTransferIn, amount = amt,
                     description = Received_from fromNo, status = Completed\<rparr>]\<rparr>)"
    using assms(1-3,5) pos unfolding assms(6-8)
    by (simp add: transfer_def withdraw_ok deposit_ok addTransaction_eq eval_nat_numeral)
  with assms(9) assms(3) show ?thesis
    by (auto simp: getAccount_storeAccount)
qed

theorem transfer_moves_amount_witness:
  "getAccount 1000 john_two = Some (opened_savings (Num 1000)) \<and>
   getAccount 1001 john_two = Some john_checking \<and> (1000::nat) \<noteq> 1001 \<and>
   js_lt (Num 0) (Num 200) \<and> canWithdraw (Num 200) (opened_savings (Num 1000)) \<and>
   fst (transfer 1000 1001 (Num 200) john_two john_world) = Inr (Num 800, Num 250) \<and>
   getAccount 1000 (fst (snd (transfer 1000 1001 (Num 200) john_two john_world))) =
     Some ((opened_savings (Num 1000))
             \<lparr>balance := Num 800, todayWithdrawn := Num 200, transactions := [0, 2, 4]\<rparr>) \<and>
   getAccount 1001 (fst (snd (transfer 1000 1001 (Num 200) john_two john_world))) =
     Some (john_checking\<lparr>balance := Num 250, transactions := [1, 3, 5]\<rparr>) \<and>
   map tx_type (txHeap (snd (snd (transfer 1000 1001 (Num 200) john_two john_world)))) =
     [TAccountOpening, TAccountOpening, TWithdrawal, TDeposit, TTransferOut, TTransferIn] \<and>
   map amount (txHeap (snd (snd (transfer 1000 1001 (Num 200) john_two john_world)))) =
     [Num 1000, Num 50, Num 200, Num 200, Num 200, Num 200]"
proof -
  have 1: "getAccount 1000 john_two = Some (opened_savings (Num 1000))"
    and 2: "getAccount 1001 john_two = Some john_checking"
    by (simp_all add: getAccount_def john_two_def)
  have ar: "double_of 200 = Num 200" "double_of 800 = Num 800" "double_of 250 = Num 250"
    by code_simp+
  have 3: "canWithdraw (Num 200) (opened_savings (Num 1000))"
    by (simp add: canWithdraw_def Account_canWithdraw_def js_ge_def opened_savings_def ar)
  have 4: "(2::nat) = length (txHeap john_world)"
    by (simp add: john_world_def)
  have 5: "transfer 1000 1001 (Num 200) john_two john_world =
             (fst (transfer 1000 1001 (Num 200) john_two john_world),
              fst (snd (transfer 1000 1001 (Num 200) john_two john_world)),
              snd (snd (transfer 1000 1001 (Num 200) john_two john_world)))"
    by simp
  note step = transfer_moves_amount [OF 1 2 _ _ 3 4 refl refl 5]
  have bal: "balance (opened_savings (Num 1000)) = Num 1000"
    "todayWithdrawn (opened_savings (Num 1000)) = Num 0"
    "transactions (opened_savings (Num 1000)) = [0]" "balance john_checking = Num 50"
    "transactions john_checking = [1]"
    by (simp_all add: opened_savings_def john_checking_def opened_checking_def)
  show ?thesis
    using step 1 2 3 by (simp add: bal john_world_def getAccount_storeAccount ar)
qed

text \<open>
  Claim C2 as stated fails where a balance rounds. Transferring 0.1 from the savings
  account of 1000.3 to the checking account of 0.2 leaves 1000.1999999999999 and
  0.30000000000000004: neither balance has changed by exactly the amount.
\<close>

theorem transfer_moves_amount_counterexample:
  "getAccount 1000 cents_customer = Some (opened_savings (double_of (10003 / 10))) \<and>
   getAccount 1001 cents_customer = Some (second_checking (double_of (2 / 10))) \<and>
   js_lt (Num 0) (double_of (1 / 10)) \<and>
   canWithdraw (double_of (1 / 10)) (opened_savings (double_of (10003 / 10))) \<and>
   fst (transfer 1000 1001 (double_of (1 / 10)) cents_customer cents_world) =
     Inr (Num (8797852240812441 / 8796093022208),
          Num (1351079888211149 / 4503599627370496)) \<and>
   exact_sub (double_of (10003 / 10)) (double_of (1 / 10)) \<noteq>
     Num (8797852240812441 / 8796093022208) \<and>
   exact_add (double_of (2 / 10)) (double_of (1 / 10)) \<noteq>
     Num (1351079888211149 / 4503599627370496)"
  by code_simp

text \<open>
  Claim C3. When both accounts exist and are distinct and the withdrawal from the source
  fails (amount not positive, or \<open>canWithdraw\<close> false), \<open>transfer\<close> fails with the error of
  that withdrawal, and the customer with all accounts (balances, \<open>todayWithdrawn\<close>,
  addresses of records) and the store of records are as before the call.
\<close>

theorem transfer_failed_withdrawal:
  assumes "getAccount fromNo c = Some x" and "getAccount toNo c = Some y"
    and "fromNo \<noteq> toNo" and "js_le amt (Num 0) \<or> \<not> canWithdraw amt x"
  shows "transfer fromNo toNo amt c w =
           (Inl (if js_le amt (Num 0) then InvalidAmount else WithdrawalDenied), c, w)"
proof (cases "js_le amt (Num 0)")
  case True
  with assms(1-3) show ?thesis
    by (simp add: transfer_def withdraw_invalid storeAccount_same)
next
  case False
  with assms(4) have "\<not> canWithdraw amt x" by simp
  with False assms(1-3) show ?thesis
    by (simp add: transfer_def withdraw_denied storeAccount_same)
qed

theorem transfer_failed_withdrawal_witness:
  "getAccount 1000 john_two = Some (opened_savings (Num 1000)) \<and>
   getAccount 1001 john_two = Some john_checking \<and> (1000::nat) \<noteq> 1001 \<and>
   \<not> canWithdraw (Num 950) (opened_savings (Num 1000)) \<and>
   transfer 1000 1001 (Num 950) john_two john_world =
     (Inl WithdrawalDenied, john_two, john_world)"
proof -
  have 1: "getAccount 1000 john_two = Some (opened_savings (Num 1000))"
    and 2: "getAccount 1001 john_two = Some john_checking"
    by (simp_all add: getAccount_def john_two_def)
  have ar: "double_of 950 = Num 950" "double_of 50 = Num 50"
    by code_simp+
  have 3: "\<not> canWithdraw (Num 950) (opened_savings (Num 1000))"
    by (simp add: canWithdraw_def Account_canWithdraw_def js_ge_def opened_savings_def ar)
  show ?thesis
    using transfer_failed_withdrawal [OF 1 2, of "Num 950" john_world] 1 2 3 by simp
qed

section \<open>The balance and the recorded transactions\<close>

lemma map_nth_append_old:
  "list_all (\<lambda>r. r < length h) rs \<Longrightarrow> map (\<lambda>r. (h @ ts) ! r) rs = map (\<lambda>r. h ! r) rs"
  by (induction rs) (simp_all add: nth_append)

lemma running_sum_snoc: "xs \<noteq> [] \<Longrightarrow> running_sum (xs @ [x]) = js_add (running_sum xs) x"
  by (cases xs) (simp_all add: running_sum_def)

lemma book_keeps_ledger:
  assumes ok: "ledger_ok a w"
    and same: "transactions a1 = transactions a"
    and bal: "balance a1 = js_add (balance a) (signedAmount
                \<lparr>tx_id = idCounter w, tx_type = ty, amount = amt, description = d,
                 status = Completed\<rparr>)"
    and add: "addTransaction ty amt d a1 w = (r, a2, w2)"
  shows "ledger_ok a2 w2"
proof -
  let ?t = "\<lparr>tx_id = idCounter w, tx_type = ty, amount = amt, description = d,
             status = Completed\<rparr>"
  from ok have valid: "list_all (\<lambda>r. r < length (txHeap w)) (transactions a)"
    and nonempty: "completedAmounts a w \<noteq> []"
    and sum: "balance a = completedSum a w"
    by (simp_all add: ledger_ok_def refs_valid_def)
  from add have a2: "a2 = a1\<lparr>transactions := transactions a1 @ [length (txHeap w)]\<rparr>"
    and w2: "txHeap w2 = txHeap w @ [?t]"
    by (auto simp: addTransaction_eq)
  have hist: "history a2 w2 = history a w @ [?t]"
    using valid by (simp add: history_def a2 w2 same map_nth_append_old)
  then have amounts: "completedAmounts a2 w2 = completedAmounts a w @ [signedAmount ?t]"
    by (simp add: completedAmounts_def)
  with nonempty have "completedSum a2 w2 = js_add (completedSum a w) (signedAmount ?t)"
    by (simp add: completedSum_def running_sum_snoc)
  moreover have "balance a2 = balance a1"
    by (simp add: a2)
  moreover have "refs_valid a2 w2"
    using valid by (simp add: refs_valid_def a2 w2 same list_all_iff less_SucI)
  ultimately show ?thesis
    using bal sum amounts by (simp add: ledger_ok_def)
qed

text \<open>
  Records that other accounts append to the store do not disturb the invariant of this
  one.
\<close>

lemma ledger_ok_store_grows:
  assumes "ledger_ok a w" and "txHeap w' = txHeap w @ ts"
  shows "ledger_ok a w'"
proof -
  from assms(1) have valid: "list_all (\<lambda>r. r < length (txHeap w)) (transactions a)"
    and nonempty: "completedAmounts a w \<noteq> []"
    and sum: "balance a = completedSum a w"
    by (simp_all add: ledger_ok_def refs_valid_def)
  from valid have "history a w' = history a w"
    by (simp add: history_def assms(2) map_nth_append_old)
  then have "completedAmounts a w' = completedAmounts a w"
    by (simp add: completedAmounts_def)
  moreover from valid have "refs_valid a w'"
    by (simp add: refs_valid_def assms(2) list_all_iff trans_less_add1)
  ultimately show ?thesis
    using sum nonempty by (simp add: ledger_ok_def completedSum_def)
qed

lemma deposit_keeps_ledger:
  assumes "ledger_ok a w" and "deposit amt a w = (res, a', w')"
  shows "ledger_ok a' w'"
proof (cases "js_le amt (Num 0)")
  case True
  with assms show ?thesis by (simp add: deposit_def)
next
  case False
  obtain r a2 w2 where add:
    "addTransaction TDeposit amt (Deposit_to (accountNumber a))
       (a\<lparr>balance := js_add (balance a) amt\<rparr>) w = (r, a2, w2)"
    by (metis prod_cases3)
  with False assms(2) have "a' = a2" and "w' = w2"
    by (simp_all add: deposit_def)
  moreover have "ledger_ok a2 w2"
    by (rule book_keeps_ledger [OF assms(1) _ _ add]) (simp_all add: signedAmount_def)
  ultimately show ?thesis by simp
qed

lemma withdraw_keeps_ledger:
  assumes "ledger_ok a w" and "withdraw amt a w = (res, a', w')"
  shows "ledger_ok a' w'"
proof (cases "\<not> js_le amt (Num 0) \<and> canWithdraw amt a")
  case False
  with assms show ?thesis by (auto simp: withdraw_def split: if_splits)
next
  case True
  obtain r a2 w2 where add:
    "addTransaction TWithdrawal amt (Withdrawal_from (accountNumber a))
       (a\<lparr>balance := js_sub (balance a) amt,
          todayWithdrawn := js_add (todayWithdrawn a) amt\<rparr>) w = (r, a2, w2)"
    by (metis prod_cases3)
  with True assms(2) have "a' = a2" and "w' = w2"
    by (simp_all add: withdraw_def)
  moreover have "ledger_ok a2 w2"
    by (rule book_keeps_ledger [OF assms(1) _ _ add])
       (simp_all add: signedAmount_def js_sub_add_neg)
  ultimately show ?thesis by simp
qed

lemma applyInterest_keeps_ledger:
  assumes "ledger_ok a w" and "applyInterest m a w = (res, a', w')"
  shows "ledger_ok a' w'"
proof (cases "cls a")
  case (CheckingAccount overdraft mfee)
  with assms show ?thesis by (simp add: applyInterest_def)
next
  case (SavingsAccount rate minBal)
  obtain r a2 w2 where add:
    "addTransaction TInterest (calculateInterest m a) (Interest_applied m)
       (a\<lparr>balance := js_add (balance a) (calculateInterest m a)\<rparr>) w = (r, a2, w2)"
    by (metis prod_cases3)
  with SavingsAccount assms(2) have "a' = a2" and "w' = w2"
    by (simp_all add: applyInterest_def Let_def)
  moreover have "ledger_ok a2 w2"
    by (rule book_keeps_ledger [OF assms(1) _ _ add]) (simp_all add: signedAmount_def)
  ultimately show ?thesis by simp
qed

lemma chargeMonthlyFee_keeps_ledger:
  assumes "ledger_ok a w" and "chargeMonthlyFee a w = (res, a', w')"
  shows "ledger_ok a' w'"
proof (cases "cls a")
  case (SavingsAccount rate minBal)
  with assms show ?thesis by (simp add: chargeMonthlyFee_def)
next
  case (CheckingAccount overdraft mfee)
  show ?thesis
  proof (cases "js_ge (balance a) mfee")
    case False
    with CheckingAccount assms show ?thesis by (simp add: chargeMonthlyFee_def)
  next
    case True
    obtain r a2 w2 where add:
      "addTransaction TFee (js_neg mfee) Monthly_fee
         (a\<lparr>balance := js_sub (balance a) mfee\<rparr>) w = (r, a2, w2)"
      by (metis prod_cases3)
    with True CheckingAccount assms(2) have "a' = a2" and "w' = w2"
      by (simp_all add: chargeMonthlyFee_def)
    moreover have "ledger_ok a2 w2"
      by (rule book_keeps_ledger [OF assms(1) _ _ add])
         (simp_all add: signedAmount_def js_sub_add_neg)
    ultimately show ?thesis by simp
  qed
qed

lemma perform_keeps_ledger:
  assumes "ledger_ok a w" and "perform q a w = (a', w')"
  shows "ledger_ok a' w'"
proof (cases q)
  case (Deposit amt)
  with assms show ?thesis
    by (cases "deposit amt a w") (auto dest: deposit_keeps_ledger)
next
  case (Withdraw amt)
  with assms show ?thesis
    by (cases "withdraw amt a w") (auto dest: withdraw_keeps_ledger)
next
  case (ApplyInterest m)
  with assms show ?thesis
    by (cases "applyInterest m a w") (auto dest: applyInterest_keeps_ledger)
next
  case ChargeMonthlyFee
  with assms show ?thesis
    by (cases "chargeMonthlyFee a w") (auto dest: chargeMonthlyFee_keeps_ledger)
qed

lemma perform_all_keeps_ledger:
  "ledger_ok a w \<Longrightarrow> perform_all qs a w = (a', w') \<Longrightarrow> ledger_ok a' w'"
proof (induction qs arbitrary: a w)
  case Nil
  then show ?case by simp
next
  case (Cons q qs)
  obtain a1 w1 where step: "perform q a w = (a1, w1)"
    by (cases "perform q a w")
  with Cons.prems(1) have "ledger_ok a1 w1"
    by (rule perform_keeps_ledger)
  moreover from Cons.prems(2) step have "perform_all qs a1 w1 = (a', w')"
    by simp
  ultimately show ?case by (rule Cons.IH)
qed

lemma Account_new_ledger:
  assumes "Account_new (Some k) cid initialBalance aty w0 = (Inr a0, w1)"
  shows "ledger_ok a0 w1"
  using assms
  by (auto simp: Account_new_def addTransaction_eq ledger_ok_def refs_valid_def
      completedSum_def completedAmounts_def running_sum_def history_def signedAmount_def)

text \<open>
  Claim C1, as amended. Take an account as its constructor leaves it (savings or
  checking, any opening balance, in any state of the statics and the store) and let a
  caller make any sequence of \<open>deposit\<close>, \<open>withdraw\<close>, \<open>applyInterest\<close> and
  \<open>chargeMonthlyFee\<close> requests on it. Afterwards the balance is the running sum
  (\<open>running_sum\<close>: added one after the other in the order recorded, each partial sum
  rounded to a double) of the signed amounts (\<open>signedAmount\<close>: a withdrawal counts
  negated, the other records as recorded, the fee being recorded negative) of the
  completed records of the account, the \<open>account_opening\<close> record included. Requests that
  fail change nothing, so the runs in which every request succeeds are covered. The
  equality is sameness of value: a balance that is \<^verbatim>\<open>NaN\<close> comes with a running sum that
  is \<^verbatim>\<open>NaN\<close>.
\<close>

theorem balance_is_signed_sum:
  assumes "Account_new (Some k) cid initialBalance aty w0 = (Inr a0, w1)"
    and "perform_all qs a0 w1 = (a, w)"
  shows "balance a = completedSum a w"
  using perform_all_keeps_ledger [OF Account_new_ledger [OF assms(1)] assms(2)]
  by (simp add: ledger_ok_def)

theorem balance_is_signed_sum_witness:
  "Account_new (Some (CheckingAccount (Num 500) (Num 10))) 7 (Num 100) ''checking''
       initial_world =
     (Inr (opened_checking (Num 100)), opened_world (Num 100)) \<and>
   balance (fst (perform_all
      [Deposit (Num 50), Withdraw (Num 30), ChargeMonthlyFee, ApplyInterest (Num 1),
       Withdraw (Num 5000)]
      (opened_checking (Num 100)) (opened_world (Num 100)))) = Num 110 \<and>
   completedSum
     (fst (perform_all
        [Deposit (Num 50), Withdraw (Num 30), ChargeMonthlyFee, ApplyInterest (Num 1),
         Withdraw (Num 5000)]
        (opened_checking (Num 100)) (opened_world (Num 100))))
     (snd (perform_all
        [Deposit (Num 50), Withdraw (Num 30), ChargeMonthlyFee, ApplyInterest (Num 1),
         Withdraw (Num 5000)]
        (opened_checking (Num 100)) (opened_world (Num 100)))) = Num 110"
proof -
  let ?qs = "[Deposit (Num 50), Withdraw (Num 30), ChargeMonthlyFee, ApplyInterest (Num 1),
              Withdraw (Num 5000)]"
  have 1: "Account_new (Some (CheckingAccount (Num 500) (Num 10))) 7 (Num 100) ''checking''
             initial_world = (Inr (opened_checking (Num 100)), opened_world (Num 100))"
    using CheckingAccount_new_initial [of "Num 100"] by (simp add: CheckingAccount_new_def)
  have 2: "perform_all ?qs (opened_checking (Num 100)) (opened_world (Num 100)) =
             (fst (perform_all ?qs (opened_checking (Num 100)) (opened_world (Num 100))),
              snd (perform_all ?qs (opened_checking (Num 100)) (opened_world (Num 100))))"
    by simp
  have 3: "balance (fst (perform_all ?qs (opened_checking (Num 100))
             (opened_world (Num 100)))) = Num 110"
    by code_simp
  show ?thesis
    using balance_is_signed_sum [OF 1 2] 1 3 by simp
qed

text \<open>
  Claim C1 as stated fails where a balance rounds. On a checking account opened with
  2^53, a deposit of 1 is recorded and leaves the balance at 2^53, while the signed
  amounts of the records add up to 2^53 + 1. On an account opened with 0, the deposits of
  0.1 and 0.2 give the balance 0.30000000000000004, which is not the sum of the three
  recorded amounts.
\<close>

theorem balance_is_signed_sum_counterexample:
  "CheckingAccount_new 7 (Num 9007199254740992) initial_world =
     (Inr (opened_checking (Num 9007199254740992)), opened_world (Num 9007199254740992)) \<and>
   balance (fst (perform_all [Deposit (Num 1)]
     (opened_checking (Num 9007199254740992)) (opened_world (Num 9007199254740992)))) =
     Num 9007199254740992 \<and>
   completedAmounts
     (fst (perform_all [Deposit (Num 1)]
        (opened_checking (Num 9007199254740992)) (opened_world (Num 9007199254740992))))
     (snd (perform_all [Deposit (Num 1)]
        (opened_checking (Num 9007199254740992)) (opened_world (Num 9007199254740992)))) =
     [Num 9007199254740992, Num 1] \<and>
   exact_sum [Num 9007199254740992, Num 1] = Num 9007199254740993 \<and>
   balance (fst (perform_all [Deposit (double_of (1 / 10)), Deposit (double_of (2 / 10))]
     (opened_checking (Num 0)) (opened_world (Num 0)))) \<noteq>
   exact_sum (completedAmounts
     (fst (perform_all [Deposit (double_of (1 / 10)), Deposit (double_of (2 / 10))]
        (opened_checking (Num 0)) (opened_world (Num 0))))
     (snd (perform_all [Deposit (double_of (1 / 10)), Deposit (double_of (2 / 10))]
        (opened_checking (Num 0)) (opened_world (Num 0)))))"
proof -
  have "CheckingAccount_new 7 (Num 9007199254740992) initial_world =
     (Inr (opened_checking (Num 9007199254740992)), opened_world (Num 9007199254740992))"
    by (rule CheckingAccount_new_initial)
  moreover have "balance (fst (perform_all [Deposit (Num 1)]
     (opened_checking (Num 9007199254740992)) (opened_world (Num 9007199254740992)))) =
     Num 9007199254740992"
    by code_simp
  moreover have "completedAmounts
     (fst (perform_all [Deposit (Num 1)]
        (opened_checking (Num 9007199254740992)) (opened_world (Num 9007199254740992))))
     (snd (perform_all [Deposit (Num 1)]
        (opened_checking (Num 9007199254740992)) (opened_world (Num 9007199254740992)))) =
     [Num 9007199254740992, Num 1]"
    by code_simp
  moreover have "exact_sum [Num 9007199254740992, Num 1] = Num 9007199254740993"
    by (simp add: exact_sum_def)
  moreover have "balance (fst (perform_all
       [Deposit (double_of (1 / 10)), Deposit (double_of (2 / 10))]
     (opened_checking (Num 0)) (opened_world (Num 0)))) \<noteq>
   exact_sum (completedAmounts
     (fst (perform_all [Deposit (double_of (1 / 10)), Deposit (double_of (2 / 10))]
        (opened_checking (Num 0)) (opened_world (Num 0))))
     (snd (perform_all [Deposit (double_of (1 / 10)), Deposit (double_of (2 / 10))]
        (opened_checking (Num 0)) (opened_world (Num 0)))))"
    by code_simp
  ultimately show ?thesis by blast
qed

section \<open>Opening an account\<close>

lemma toLowerCase_examples:
  "toLowerCase ''SaVings'' = ''savings''" "toLowerCase ''CHECKING'' = ''checking''"
  "toLowerCase ''gold'' = ''gold''"
  by code_simp+

text \<open>
  Claim C10. \<open>openAccount\<close> fails exactly when the type string, in lower case, is neither
  \<open>savings\<close> nor \<open>checking\<close>; the initial deposit plays no part. A failure is
  \<open>UnknownAccountType\<close> and changes nothing. Otherwise the call returns an account whose
  balance is the initial deposit, whatever its sign, whose history is one completed
  \<open>account_opening\<close> record of that amount, and which is registered under its number.
\<close>

theorem openAccount_error_iff_unknown_type:
  assumes "openAccount aty d c w = (res, c', w')"
  shows "(isl res \<longleftrightarrow> toLowerCase aty \<noteq> ''savings'' \<and> toLowerCase aty \<noteq> ''checking'') \<and>
         (isl res \<longrightarrow> res = Inl UnknownAccountType \<and> c' = c \<and> w' = w) \<and>
         (\<not> isl res \<longrightarrow>
            (\<exists>a. res = Inr a \<and> balance a = d \<and> accountNumber a = accountCounter w \<and>
                 transactions a = [length (txHeap w)] \<and>
                 getAccount (accountNumber a) c' = Some a \<and>
                 txHeap w' = txHeap w @
                   [\<lparr>tx_id = idCounter w, tx_type = TAccountOpening, amount = d,
                     description = Account_opened, status = Completed\<rparr>]))"
proof (cases "toLowerCase aty = ''savings''")
  case True
  with assms show ?thesis
    by (auto simp: openAccount_def SavingsAccount_new_def Account_new_def
        addTransaction_eq getAccount_storeAccount Let_def)
next
  case False
  note not_savings = this
  show ?thesis
  proof (cases "toLowerCase aty = ''checking''")
    case True
    with not_savings assms show ?thesis
      by (auto simp: openAccount_def CheckingAccount_new_def Account_new_def
          addTransaction_eq getAccount_storeAccount Let_def)
  next
    case False
    with not_savings assms show ?thesis
      by (auto simp: openAccount_def Let_def)
  qed
qed

theorem openAccount_error_iff_unknown_type_witness:
  "fst (openAccount ''gold'' (Num (- 50)) john initial_world) = Inl UnknownAccountType \<and>
   (\<exists>a. fst (openAccount ''SaVings'' (Num (- 50)) john initial_world) = Inr a \<and>
        balance a = Num (- 50) \<and> transactions a = [0] \<and>
        txHeap (snd (snd (openAccount ''SaVings'' (Num (- 50)) john initial_world))) =
          [\<lparr>tx_id = 1, tx_type = TAccountOpening, amount = Num (- 50),
            description = Account_opened, status = Completed\<rparr>])"
proof -
  have 1: "openAccount ''gold'' (Num (- 50)) john initial_world =
             (fst (openAccount ''gold'' (Num (- 50)) john initial_world),
              fst (snd (openAccount ''gold'' (Num (- 50)) john initial_world)),
              snd (snd (openAccount ''gold'' (Num (- 50)) john initial_world)))"
    by simp
  have 2: "openAccount ''SaVings'' (Num (- 50)) john initial_world =
             (fst (openAccount ''SaVings'' (Num (- 50)) john initial_world),
              fst (snd (openAccount ''SaVings'' (Num (- 50)) john initial_world)),
              snd (snd (openAccount ''SaVings'' (Num (- 50)) john initial_world)))"
    by simp
  show ?thesis
    using openAccount_error_iff_unknown_type [OF 1] openAccount_error_iff_unknown_type [OF 2]
    by (auto simp: toLowerCase_examples initial_world_def)
qed

section \<open>The singleton bank\<close>

lemma getInstance_existing:
  "bankInstance w = Some r \<Longrightarrow> getInstance name loc w = (Some r, w)"
  by (simp add: getInstance_def)

lemma getInstance_first:
  "bankInstance w = None \<Longrightarrow>
   getInstance name loc w =
     (Some (length (bankHeap w)),
      w\<lparr>bankHeap := bankHeap w @
            [\<lparr>bankName = name, location = loc, customers = [], totalDeposits = Num 0,
              totalLoans = Num 0, bankBalance = Num 1000000,
              transactionFee = Num (1 / 2)\<rparr>],
        bankInstance := Some (length (bankHeap w))\<rparr>)"
  by (simp add: getInstance_def Bank_new_def Let_def)

text \<open>
  Claim C8. After a first call of \<open>getInstance\<close>, a call in any later state in which
  \<^verbatim>\<open>Bank.instance\<close> is what the first call left (no code assigns it again) returns the
  same reference, whatever name and location it is given, and changes nothing: the
  bank object, with its name, location and all other fields, is as before the call.
  When there was no instance before the first call, that call constructs the bank
  with its own name and location.
\<close>

theorem getInstance_singleton:
  assumes "getInstance name1 loc1 w0 = (r1, w1)"
    and "bankInstance w = bankInstance w1"
    and "getInstance name2 loc2 w = (r2, w')"
  shows "r2 = r1 \<and> w' = w \<and> r1 \<noteq> None \<and>
         (bankInstance w0 = None \<longrightarrow>
            r1 = Some (length (bankHeap w0)) \<and>
            bankHeap w1 = bankHeap w0 @
              [\<lparr>bankName = name1, location = loc1, customers = [], totalDeposits = Num 0,
                totalLoans = Num 0, bankBalance = Num 1000000,
                transactionFee = Num (1 / 2)\<rparr>])"
proof (cases "bankInstance w0")
  case None
  let ?r = "length (bankHeap w0)"
  from assms(1) have first: "r1 = Some ?r" "bankInstance w1 = Some ?r"
    "bankHeap w1 = bankHeap w0 @
              [\<lparr>bankName = name1, location = loc1, customers = [], totalDeposits = Num 0,
                totalLoans = Num 0, bankBalance = Num 1000000,
                transactionFee = Num (1 / 2)\<rparr>]"
    unfolding getInstance_first [OF None] by auto
  from assms(2) first(2) have "bankInstance w = Some ?r" by simp
  from getInstance_existing [OF this, of name2 loc2] assms(3)
  have "r2 = Some ?r" and "w' = w" by simp_all
  with first show ?thesis by simp
next
  case (Some r)
  from assms(1) have first: "r1 = Some r" "bankInstance w1 = Some r"
    unfolding getInstance_existing [OF Some] using Some by auto
  from assms(2) first(2) have "bankInstance w = Some r" by simp
  from getInstance_existing [OF this, of name2 loc2] assms(3)
  have "r2 = Some r" and "w' = w" by simp_all
  with first Some show ?thesis by simp
qed

theorem getInstance_singleton_witness:
  "getInstance ''OOP Bank'' ''Digital City'' initial_world =
     (Some 0, initial_world\<lparr>bankHeap := [oop_bank], bankInstance := Some 0\<rparr>) \<and>
   bankInstance bank_world = Some 0 \<and>
   getInstance ''Other Bank'' ''Elsewhere'' bank_world = (Some 0, bank_world) \<and>
   bankName (bankHeap bank_world ! 0) = ''OOP Bank''"
proof -
  have 1: "getInstance ''OOP Bank'' ''Digital City'' initial_world =
             (Some 0, initial_world\<lparr>bankHeap := [oop_bank], bankInstance := Some 0\<rparr>)"
    by (simp add: getInstance_def Bank_new_def initial_world_def oop_bank_def Let_def)
  have 2: "bankInstance bank_world =
             bankInstance (initial_world\<lparr>bankHeap := [oop_bank], bankInstance := Some 0\<rparr>)"
    by (simp add: bank_world_def)
  have 3: "getInstance ''Other Bank'' ''Elsewhere'' bank_world =
             (fst (getInstance ''Other Bank'' ''Elsewhere'' bank_world),
              snd (getInstance ''Other Bank'' ''Elsewhere'' bank_world))"
    by simp
  have 4: "bankName (bankHeap bank_world ! 0) = ''OOP Bank''"
    by (simp add: bank_world_def oop_bank_def)
  from getInstance_singleton [OF 1 2 3]
  have "getInstance ''Other Bank'' ''Elsewhere'' bank_world = (Some 0, bank_world)"
    by (metis prod.collapse)
  with 1 4 show ?thesis
    by (simp add: bank_world_def)
qed

section \<open>The transactions getter\<close>

text \<open>
  Claim C9 does not hold of the code. The getter copies the array, not the records: the
  caller receives the addresses of the account's own \<^verbatim>\<open>Transaction\<close> objects. On a
  checking account opened with 100, calling \<^verbatim>\<open>fail()\<close> on the first element of the
  returned array turns the status of the account's opening record from \<open>completed\<close> to
  \<open>failed\<close>; the sum of the completed records is then 0 while the balance is 100.
\<close>

theorem transactions_view_exposes_records:
  "get_transactions (opened_checking (Num 100)) = [0] \<and>
   map status (history (opened_checking (Num 100)) (opened_world (Num 100))) = [Completed] \<and>
   map status (history (opened_checking (Num 100))
      (fail (get_transactions (opened_checking (Num 100)) ! 0) (opened_world (Num 100)))) =
     [Failed] \<and>
   balance (opened_checking (Num 100)) = Num 100 \<and>
   completedSum (opened_checking (Num 100))
      (fail (get_transactions (opened_checking (Num 100)) ! 0) (opened_world (Num 100))) =
     Num 0"
  by (simp add: get_transactions_def history_def fail_def completedSum_def
      completedAmounts_def running_sum_def opened_checking_def opened_world_def)

end
